theory Spec2Isabelle
  imports Main "HOL-Library.Product_Lexorder" "HOL-Library.Finite_Map" "HOL-Library.Multiset"
begin

section \<open>Errors raised by the modelled code\<close>

text \<open>
  Every exception the modelled Python can raise is a value. A function that may raise
  returns \<open>error + 'a\<close> with \<open>Inl\<close> carrying the exception.
\<close>

datatype error =
    ValueError
  | KeyError
  | AttributeError
  | SQLAlchemyError
  | ConnectionError
  | HTTPError

section \<open>Coverage failures (core/opds2\_import.py)\<close>

text \<open>
  \<open>Identifier\<close> objects carry a type and an identifier string; the string may be
  \<open>None\<close>. A \<open>CoverageFailure\<close> keeps the identifier, the message, the data source
  and the transient flag it was built with.
\<close>

record identifier_obj =
  id_type :: string
  id_identifier :: "string option"

record coverage_failure =
  cf_obj :: identifier_obj
  cf_exception :: string
  cf_data_source :: string
  cf_transient :: bool

text \<open>
  The failures dictionary is annotated \<open>Dict[str, List[CoverageFailure]]\<close>, but a Python
  dictionary accepts any hashable key and the membership test of
  \<open>_record_coverage_failure\<close> is made with the \<open>Identifier\<close> object itself. Keys are
  therefore either strings or identifier objects, and an identifier object never equals
  a string.
\<close>

datatype dict_key = StrKey string | ObjKey identifier_obj

type_synonym failures = "dict_key \<rightharpoonup> coverage_failure list"

text \<open>
  \<open>OPDS2Importer._record_coverage_failure\<close>. The result pairs what the call returns or
  raises with the dictionary as the call leaves it. \<open>data_source\<close> is the importer's
  \<open>self.data_source\<close>.
\<close>

definition record_coverage_failure ::
  "string \<Rightarrow> failures \<Rightarrow> identifier_obj \<Rightarrow> string \<Rightarrow> bool \<Rightarrow> (error + coverage_failure) \<times> failures"
where
  "record_coverage_failure data_source failures ident error_message transient =
     (case id_identifier ident of
        None \<Rightarrow> (Inl ValueError, failures)
      | Some s \<Rightarrow>
          (let failures1 =
                 (if failures (ObjKey ident) = None then failures(StrKey s \<mapsto> []) else failures);
               failure = \<lparr>cf_obj = ident, cf_exception = error_message,
                          cf_data_source = data_source, cf_transient = transient\<rparr>
           in (case failures1 (StrKey s) of
                 None \<Rightarrow> (Inl KeyError, failures1)
               | Some fs \<Rightarrow> (Inr failure, failures1(StrKey s \<mapsto> fs @ [failure])))))"

section \<open>The parsed OPDS 2.0 tree\<close>

text \<open>
  The tree comes from the external manifest parser; the importer reads the fields below.
  An acquisition object carries a type and a list of children.
\<close>

datatype acquisition_object =
  AcquisitionObject (acq_type: "string option") (acq_child: "acquisition_object list")

record availability =
  av_state :: string

record link_properties =
  lp_availability :: "availability option"
  lp_indirect_acquisition :: "acquisition_object list"

record ast_link =
  link_href :: string
  link_type :: "string option"
  link_rels :: "string list"
  link_properties :: "link_properties option"
  link_width :: "int option"
  link_height :: "int option"

record ast_contributor =
  contrib_name :: "string option"
  contrib_sort_as :: "string option"
  contrib_roles :: "string list"

record ast_subject =
  subj_scheme :: "string option"
  subj_code :: "string option"
  subj_name :: "string option"

record ast_metadata =
  md_identifier :: "string option"
  md_title :: "string option"
  md_subtitle :: "string option"
  md_type :: "string option"
  md_description :: "string option"
  md_languages :: "string list"
  md_publishers :: "ast_contributor list"
  md_imprints :: "ast_contributor list"
  md_published :: "int option"
  md_modified :: "int option"
  md_subjects :: "ast_subject list"
  md_authors :: "ast_contributor list"
  md_translators :: "ast_contributor list"
  md_editors :: "ast_contributor list"
  md_artists :: "ast_contributor list"
  md_illustrators :: "ast_contributor list"
  md_letterers :: "ast_contributor list"
  md_pencilers :: "ast_contributor list"
  md_colorists :: "ast_contributor list"
  md_inkers :: "ast_contributor list"
  md_narrators :: "ast_contributor list"
  md_contributors :: "ast_contributor list"

record publication =
  pub_metadata :: ast_metadata
  pub_links :: "ast_link list"
  pub_images :: "ast_link list option"

record ast_group =
  group_publications :: "publication list"

record feed =
  feed_links :: "ast_link list"
  feed_publications :: "publication list"
  feed_groups :: "ast_group list"

section \<open>Constants and collaborators outside the importer\<close>

text \<open>
  The importer reads constants of \<open>DeliveryMechanism\<close>, \<open>MediaTypes\<close>, \<open>LinkRelations\<close>,
  \<open>Hyperlink\<close>, \<open>Edition\<close>, \<open>RightsStatus\<close>, \<open>Representation\<close>, \<open>Subject\<close> and
  \<open>OPDSFeed\<close>, calls \<open>urlparse\<close> and \<open>urljoin\<close>, resolves identifiers through the base
  importer and reads the ignored identifier types from the configuration. None of these
  is defined in the importer; they are the fields of an environment every function
  takes.
\<close>

record env =
  KNOWN_DRM_TYPES :: "string list"
  NO_DRM :: "string option"
  BOOK_MEDIA_TYPES :: "string list"
  AUDIOBOOK_MEDIA_TYPES :: "string list"
  CIRCULATION_ALLOWED :: "string list"
  AVAILABLE :: string
  IMAGE :: string
  THUMBNAIL_IMAGE :: string
  DESCRIPTION :: string
  OPEN_ACCESS_DOWNLOAD :: string
  TEXT_PLAIN :: string
  NO_TITLE :: string
  SELF_REL :: string
  TAG :: string
  UNLIMITED_ACCESS :: int
  OPEN_ACCESS_RIGHTS :: "string list"
  REPRESENTATION_BOOK_MEDIA_TYPES :: "string list"
  medium_from_media_type :: "string option \<Rightarrow> string option"
  additional_type_to_medium :: "string \<rightharpoonup> string"
  subject_by_uri :: "string option \<rightharpoonup> string"
  rights_uri_from_string :: "string \<Rightarrow> string option"
  url_netloc :: "string \<Rightarrow> string"
  urljoin :: "string \<Rightarrow> string \<Rightarrow> string"
  parse_identifier :: "string option \<Rightarrow> identifier_obj option"
  ignored_identifier_types :: "string list"
  importer_data_source :: string
  importer_data_source_name :: string

text \<open>
  \<open>first_or_default\<close> of the parser's utilities: the first element of the collection,
  or the default when there is none.
\<close>

definition first_or_default :: "'a list \<Rightarrow> 'a \<Rightarrow> 'a" where
  "first_or_default collection dflt = (case collection of [] \<Rightarrow> dflt | x # _ \<Rightarrow> x)"

text \<open>Python truthiness of an optional string: neither \<open>None\<close> nor empty.\<close>

definition truthy :: "string option \<Rightarrow> bool" where
  "truthy v = (case v of None \<Rightarrow> False | Some s \<Rightarrow> s \<noteq> [])"

section \<open>Media types and DRM scheme of a link\<close>

text \<open>
  The \<open>while\<close> loop of \<open>_extract_media_types_and_drm_scheme_from_link\<close>:
  \<^verbatim>\<open>
  while nested_acquisition_object.child:
      nested_acquisition_object = first_or_default(acquisition_object.child)
  \<close>
  The loop reassigns from the children of \<open>acquisition_object\<close>, the entry the loop
  started from. A loop that does not return has the value \<open>None\<close>. Reading \<open>.child\<close> of
  \<open>None\<close> raises \<open>AttributeError\<close>.
\<close>

partial_function (option) nested_acquisition_loop ::
  "acquisition_object \<Rightarrow> acquisition_object option \<Rightarrow> (error + acquisition_object) option"
where
  "nested_acquisition_loop acquisition_object nested =
     (case nested of
        None \<Rightarrow> Some (Inl AttributeError)
      | Some n \<Rightarrow>
          if acq_child n \<noteq> []
          then nested_acquisition_loop acquisition_object
                 (first_or_default (map Some (acq_child acquisition_object)) None)
          else Some (Inr n))"

declare nested_acquisition_loop.simps [code]

text \<open>
  The \<open>for\<close> loop over \<open>link.properties.indirect_acquisition\<close>: one pair of the nested
  object's type and the DRM scheme of the entry for each entry.
\<close>

fun indirect_acquisition_loop ::
  "env \<Rightarrow> acquisition_object list \<Rightarrow> (error + (string option \<times> string option) list) option"
where
  "indirect_acquisition_loop env [] = Some (Inr [])"
| "indirect_acquisition_loop env (acquisition_object # rest) =
     (case nested_acquisition_loop acquisition_object (Some acquisition_object) of
        None \<Rightarrow> None
      | Some (Inl e) \<Rightarrow> Some (Inl e)
      | Some (Inr nested) \<Rightarrow>
          (let drm_scheme =
                 (if (case acq_type acquisition_object of
                        None \<Rightarrow> False
                      | Some t \<Rightarrow> t \<in> set (KNOWN_DRM_TYPES env))
                  then acq_type acquisition_object
                  else NO_DRM env)
           in (case indirect_acquisition_loop env rest of
                 None \<Rightarrow> None
               | Some (Inl e) \<Rightarrow> Some (Inl e)
               | Some (Inr pairs) \<Rightarrow> Some (Inr ((acq_type nested, drm_scheme) # pairs)))))"

definition extract_media_types_and_drm_scheme_from_link ::
  "env \<Rightarrow> ast_link \<Rightarrow> (error + (string option \<times> string option) list) option"
where
  "extract_media_types_and_drm_scheme_from_link env link =
     (case link_properties link of
        Some properties \<Rightarrow>
          (if (case lp_availability properties of
                 None \<Rightarrow> True
               | Some a \<Rightarrow> av_state a = AVAILABLE env)
           then indirect_acquisition_loop env (lp_indirect_acquisition properties)
           else Some (Inr []))
      | None \<Rightarrow>
          (if (case link_type link of
                 None \<Rightarrow> False
               | Some t \<Rightarrow> t \<in> set (BOOK_MEDIA_TYPES env) \<or> t \<in> set (AUDIOBOOK_MEDIA_TYPES env))
           then Some (Inr [(link_type link, NO_DRM env)])
           else Some (Inr [])))"

section \<open>Medium of a publication\<close>

text \<open>\<open>OPDS2Importer._is_acquisition_link\<close>: some relation of the link is allowed for
  circulation (and, as \<open>any\<close> tests truthiness, is not the empty string).\<close>

definition is_acquisition_link :: "env \<Rightarrow> ast_link \<Rightarrow> bool" where
  "is_acquisition_link env link =
     (\<exists>rel \<in> set (link_rels link). rel \<in> set (CIRCULATION_ALLOWED env) \<and> rel \<noteq> [])"

text \<open>
  \<open>OPDS2Importer._extract_medium_from_links\<close>. \<open>derived\<close> is the loop's variable: it
  keeps the last value assigned when no link gives a truthy medium.
\<close>

fun extract_medium_from_links_loop ::
  "env \<Rightarrow> string option \<Rightarrow> ast_link list \<Rightarrow> (error + string option) option"
where
  "extract_medium_from_links_loop env derived [] = Some (Inr derived)"
| "extract_medium_from_links_loop env derived (link # links) =
     (if link_rels link = [] \<or> \<not> truthy (link_type link) \<or> \<not> is_acquisition_link env link
      then extract_medium_from_links_loop env derived links
      else (case extract_media_types_and_drm_scheme_from_link env link of
              None \<Rightarrow> None
            | Some (Inl e) \<Rightarrow> Some (Inl e)
            | Some (Inr pairs) \<Rightarrow>
                (let link_media_type = fst (first_or_default pairs (None, None));
                     derived1 = medium_from_media_type env link_media_type
                 in if truthy derived1 then Some (Inr derived1)
                    else extract_medium_from_links_loop env derived1 links)))"

definition extract_medium_from_links :: "env \<Rightarrow> ast_link list \<Rightarrow> (error + string option) option"
where
  "extract_medium_from_links env links = extract_medium_from_links_loop env None links"

text \<open>\<open>OPDS2Importer._extract_medium\<close>, with the default medium the caller passes.\<close>

definition extract_medium :: "env \<Rightarrow> publication \<Rightarrow> string option \<Rightarrow> string option" where
  "extract_medium env publication default_medium =
     (case md_type (pub_metadata publication) of
        None \<Rightarrow> default_medium
      | Some t \<Rightarrow>
          if t = [] then default_medium
          else (case additional_type_to_medium env t of
                  None \<Rightarrow> default_medium
                | Some m \<Rightarrow> Some m))"

section \<open>Links of a publication\<close>

text \<open>
  \<open>LinkData\<close> of the metadata layer: relation, href, media type, rights URI, content
  and the thumbnail attached by link consolidation.
\<close>

datatype link_data =
  LinkData (ld_rel: "string option") (ld_href: "string option")
           (ld_media_type: "string option") (ld_rights_uri: "string option")
           (ld_content: "string option") (ld_thumbnail: "link_data option")

text \<open>\<open>OPDS2Importer._extract_link\<close>.\<close>

definition extract_link :: "env \<Rightarrow> ast_link \<Rightarrow> string \<Rightarrow> string option \<Rightarrow> link_data" where
  "extract_link env link feed_self_url default_link_rel =
     (let rights_uri = rights_uri_from_string env [];
          rel = first_or_default (map Some (link_rels link)) default_link_rel;
          media_type = link_type link;
          href = link_href link;
          href1 = (if feed_self_url \<noteq> [] \<and> url_netloc env href = []
                   then urljoin env feed_self_url href else href)
      in LinkData rel (Some href1) media_type rights_uri None None)"

text \<open>\<open>OPDS2Importer._extract_description_link\<close>; \<open>None\<close> when there is no
  description.\<close>

definition extract_description_link :: "env \<Rightarrow> publication \<Rightarrow> link_data option" where
  "extract_description_link env publication =
     (if truthy (md_description (pub_metadata publication))
      then Some (LinkData (Some (DESCRIPTION env)) None (Some (TEXT_PLAIN env)) None
                   (md_description (pub_metadata publication)) None)
      else None)"

text \<open>
  The sort key of \<open>_extract_image_links\<close>,
  \<^verbatim>\<open>lambda link: (link.width or 0, link.height or 0)\<close>,
  compared as Python compares tuples.
\<close>

definition image_key :: "ast_link \<Rightarrow> int \<times> int" where
  "image_key link =
     ((case link_width link of None \<Rightarrow> 0 | Some w \<Rightarrow> w),
      (case link_height link of None \<Rightarrow> 0 | Some h \<Rightarrow> h))"

text \<open>
  \<^verbatim>\<open>list(reversed(sorted(publication.images.links, key=...)))\<close>. Python's \<open>sorted\<close> is
  stable and ascending, as \<open>sort_key\<close> is.
\<close>

definition sorted_raw_image_links :: "ast_link list \<Rightarrow> ast_link list" where
  "sorted_raw_image_links images = rev (sort_key image_key images)"

text \<open>\<open>OPDS2Importer._extract_image_links\<close>.\<close>

definition extract_image_links :: "env \<Rightarrow> publication \<Rightarrow> string \<Rightarrow> link_data list" where
  "extract_image_links env publication feed_self_url =
     (case pub_images publication of
        None \<Rightarrow> []
      | Some images \<Rightarrow>
          if images = [] then []
          else (let sorted_links = sorted_raw_image_links images
                in (if length sorted_links > 0
                    then [extract_link env (sorted_links ! 0) feed_self_url (Some (IMAGE env))]
                    else [])
                 @ (if length sorted_links > 1
                    then [extract_link env (sorted_links ! 1) feed_self_url
                            (Some (THUMBNAIL_IMAGE env))]
                    else [])))"

text \<open>\<open>OPDS2Importer._extract_links\<close>.\<close>

definition extract_links :: "env \<Rightarrow> publication \<Rightarrow> string \<Rightarrow> link_data list" where
  "extract_links env publication feed_self_url =
     map (\<lambda>link. extract_link env link feed_self_url None) (pub_links publication)
     @ (case extract_description_link env publication of None \<Rightarrow> [] | Some d \<Rightarrow> [d])
     @ extract_image_links env publication feed_self_url"

text \<open>
  The image links as the specification words them, for comparison: the images in
  descending order of (width, height), images of equal size in the order the feed
  declares them; the first is given the image relation and the second, when there is
  one, the thumbnail relation.
\<close>

definition image_link_with_rel :: "env \<Rightarrow> ast_link \<Rightarrow> string \<Rightarrow> string \<Rightarrow> link_data" where
  "image_link_with_rel env link feed_self_url rel =
     LinkData (Some rel) (ld_href (extract_link env link feed_self_url None)) (link_type link)
       (rights_uri_from_string env []) None None"

definition spec_image_links :: "env \<Rightarrow> publication \<Rightarrow> string \<Rightarrow> link_data list" where
  "spec_image_links env publication feed_self_url =
     (case pub_images publication of
        None \<Rightarrow> []
      | Some images \<Rightarrow>
          (let ordered = rev (sort_key image_key (rev images))
           in map (\<lambda>(link, rel). image_link_with_rel env link feed_self_url rel)
                (zip (take 2 ordered) [IMAGE env, THUMBNAIL_IMAGE env])))"

section \<open>Metadata of a publication (core/opds2\_import.py)\<close>

text \<open>The records of the metadata layer the importer fills.\<close>

datatype contributor_role =
    AUTHOR_ROLE | TRANSLATOR_ROLE | EDITOR_ROLE | ARTIST_ROLE | ILLUSTRATOR_ROLE
  | LETTERER_ROLE | PENCILER_ROLE | COLORIST_ROLE | INKER_ROLE | NARRATOR_ROLE
  | CONTRIBUTOR_ROLE

datatype roles = Roles "string list" | DefaultRole contributor_role

record contributor_data =
  cd_sort_name :: "string option"
  cd_display_name :: "string option"
  cd_family_name :: "string option"
  cd_wikipedia_name :: "string option"
  cd_roles :: roles

record subject_data =
  sd_type :: string
  sd_identifier :: "string option"
  sd_name :: "string option"
  sd_weight :: int

record identifier_data =
  idd_type :: string
  idd_identifier :: "string option"

record format_data =
  fd_content_type :: "string option"
  fd_drm_scheme :: "string option"
  fd_link :: link_data
  fd_rights_uri :: "string option"

record circulation_data =
  circ_default_rights_uri :: "string option"
  circ_data_source :: string
  circ_primary_identifier :: identifier_data
  circ_links :: "link_data list"
  circ_licenses_owned :: int
  circ_licenses_available :: int
  circ_licenses_reserved :: int
  circ_patrons_in_hold_queue :: int
  circ_formats :: "format_data list"

record metadata =
  meta_data_source :: string
  meta_title :: "string option"
  meta_subtitle :: "string option"
  meta_language :: "string option"
  meta_medium :: "string option"
  meta_publisher :: "string option"
  meta_published :: "int option"
  meta_imprint :: "string option"
  meta_primary_identifier :: identifier_data
  meta_subjects :: "subject_data list"
  meta_contributors :: "contributor_data list"
  meta_series :: "string option"
  meta_series_position :: "int option"
  meta_links :: "link_data list"
  meta_data_source_last_updated :: "int option"
  meta_circulation :: circulation_data

text \<open>\<open>OPDS2Importer._extract_subjects\<close>.\<close>

definition extract_subjects :: "env \<Rightarrow> ast_subject list \<Rightarrow> subject_data list" where
  "extract_subjects env subjects =
     map (\<lambda>subject.
            \<lparr>sd_type = (case subject_by_uri env (subj_scheme subject) of
                          None \<Rightarrow> TAG env
                        | Some t \<Rightarrow> if t = [] then TAG env else t),
             sd_identifier = subj_code subject,
             sd_name = subj_name subject,
             sd_weight = 1\<rparr>)
         subjects"

text \<open>\<open>OPDS2Importer._extract_contributors\<close>.\<close>

definition extract_contributors ::
  "ast_contributor list \<Rightarrow> contributor_role \<Rightarrow> contributor_data list" where
  "extract_contributors contributors default_role =
     map (\<lambda>contributor.
            \<lparr>cd_sort_name = contrib_sort_as contributor,
             cd_display_name = contrib_name contributor,
             cd_family_name = None,
             cd_wikipedia_name = None,
             cd_roles = (if contrib_roles contributor \<noteq> [] then Roles (contrib_roles contributor)
                         else DefaultRole default_role)\<rparr>)
         contributors"

text \<open>\<open>OPDS2Importer._extract_identifier\<close>, through the base importer's
  \<open>_parse_identifier\<close>.\<close>

definition extract_identifier :: "env \<Rightarrow> publication \<Rightarrow> identifier_obj option" where
  "extract_identifier env publication =
     parse_identifier env (md_identifier (pub_metadata publication))"


text \<open>\<open>OPDS2Importer._is_open_access_link_\<close>; the result is used for its truth value.\<close>

definition is_open_access_link :: "env \<Rightarrow> link_data \<Rightarrow> circulation_data \<Rightarrow> bool" where
  "is_open_access_link env link_data circulation_data =
     (if ld_rel link_data = Some (OPEN_ACCESS_DOWNLOAD env) \<and> truthy (ld_href link_data)
      then True
      else (let rights_uri = (if truthy (ld_rights_uri link_data) then ld_rights_uri link_data
                              else circ_default_rights_uri circulation_data)
            in (case ld_media_type link_data of
                  None \<Rightarrow> False
                | Some t \<Rightarrow> t \<in> set (REPRESENTATION_BOOK_MEDIA_TYPES env))
             \<and> truthy (ld_href link_data)
             \<and> (case rights_uri of None \<Rightarrow> False | Some r \<Rightarrow> r \<in> set (OPEN_ACCESS_RIGHTS env))))"

text \<open>\<open>OPDS2Importer._find_formats_in_non_open_access_acquisition_links\<close>; \<open>zip\<close> stops
  at the shorter list.\<close>

fun find_formats_in_non_open_access_acquisition_links ::
  "env \<Rightarrow> ast_link list \<Rightarrow> link_data list \<Rightarrow> string option \<Rightarrow> circulation_data \<Rightarrow>
   (error + format_data list) option"
where
  "find_formats_in_non_open_access_acquisition_links env (ast_link # ast_links)
       (parsed_link # parsed_links) rights_uri circulation_data =
     (if \<not> is_acquisition_link env ast_link
      then find_formats_in_non_open_access_acquisition_links env ast_links parsed_links
             rights_uri circulation_data
      else if is_open_access_link env parsed_link circulation_data
      then find_formats_in_non_open_access_acquisition_links env ast_links parsed_links
             rights_uri circulation_data
      else (case extract_media_types_and_drm_scheme_from_link env ast_link of
              None \<Rightarrow> None
            | Some (Inl e) \<Rightarrow> Some (Inl e)
            | Some (Inr pairs) \<Rightarrow>
                (case find_formats_in_non_open_access_acquisition_links env ast_links
                        parsed_links rights_uri circulation_data of
                   None \<Rightarrow> None
                 | Some (Inl e) \<Rightarrow> Some (Inl e)
                 | Some (Inr formats) \<Rightarrow>
                     Some (Inr (map (\<lambda>(content_type, drm_scheme).
                                       \<lparr>fd_content_type = content_type,
                                        fd_drm_scheme = drm_scheme,
                                        fd_link = parsed_link,
                                        fd_rights_uri = rights_uri\<rparr>) pairs
                                @ formats)))))"
| "find_formats_in_non_open_access_acquisition_links env ast_links parsed_links rights_uri
       circulation_data = Some (Inr [])"

text \<open>\<open>feed.links.get_by_rel\<close> of the parser's link list.\<close>

definition get_by_rel :: "ast_link list \<Rightarrow> string \<Rightarrow> ast_link list" where
  "get_by_rel links rel = filter (\<lambda>link. rel \<in> set (link_rels link)) links"

text \<open>
  \<open>OPDS2Importer._extract_publication_metadata\<close>, in the order of the source. Reading
  \<open>.href\<close> of a missing self link and \<open>.type\<close> of an unrecognized identifier raise
  \<open>AttributeError\<close>.
\<close>

definition extract_publication_metadata ::
  "env \<Rightarrow> feed \<Rightarrow> publication \<Rightarrow> string \<Rightarrow> (error + metadata) option"
where
  "extract_publication_metadata env feed publication data_source_name =
     (let md = pub_metadata publication;
          title = (if md_title md = Some (NO_TITLE env) then None else md_title md);
          subtitle = md_subtitle md;
          languages = first_or_default (map Some (md_languages md)) None
      in (case extract_medium_from_links env (pub_links publication) of
            None \<Rightarrow> None
          | Some (Inl e) \<Rightarrow> Some (Inl e)
          | Some (Inr derived_medium) \<Rightarrow>
         (let medium = extract_medium env publication derived_medium;
              publisher = (case md_publishers md of [] \<Rightarrow> None | p # _ \<Rightarrow> contrib_name p);
              imprint = (case md_imprints md of [] \<Rightarrow> None | p # _ \<Rightarrow> contrib_name p);
              published = md_published md;
              subjects = extract_subjects env (md_subjects md);
              contributors =
                extract_contributors (md_authors md) AUTHOR_ROLE
                @ extract_contributors (md_translators md) TRANSLATOR_ROLE
                @ extract_contributors (md_editors md) EDITOR_ROLE
                @ extract_contributors (md_artists md) ARTIST_ROLE
                @ extract_contributors (md_illustrators md) ILLUSTRATOR_ROLE
                @ extract_contributors (md_letterers md) LETTERER_ROLE
                @ extract_contributors (md_pencilers md) PENCILER_ROLE
                @ extract_contributors (md_colorists md) COLORIST_ROLE
                @ extract_contributors (md_inkers md) INKER_ROLE
                @ extract_contributors (md_narrators md) NARRATOR_ROLE
                @ extract_contributors (md_contributors md) CONTRIBUTOR_ROLE
          in (case get_by_rel (feed_links feed) (SELF_REL env) of
                [] \<Rightarrow> Some (Inl AttributeError)
              | self_link # _ \<Rightarrow>
             (let feed_self_url = link_href self_link;
                  links = extract_links env publication feed_self_url;
                  last_opds_update = md_modified md
              in (case extract_identifier env publication of
                    None \<Rightarrow> Some (Inl AttributeError)
                  | Some ident \<Rightarrow>
                 (let identifier_data =
                        \<lparr>idd_type = id_type ident, idd_identifier = id_identifier ident\<rparr>;
                      rights_uri = rights_uri_from_string env [];
                      circulation_data =
                        \<lparr>circ_default_rights_uri = rights_uri,
                         circ_data_source = data_source_name,
                         circ_primary_identifier = identifier_data,
                         circ_links = links,
                         circ_licenses_owned = UNLIMITED_ACCESS env,
                         circ_licenses_available = UNLIMITED_ACCESS env,
                         circ_licenses_reserved = 0,
                         circ_patrons_in_hold_queue = 0,
                         circ_formats = []\<rparr>
                  in (case find_formats_in_non_open_access_acquisition_links env
                             (pub_links publication) links rights_uri circulation_data of
                        None \<Rightarrow> None
                      | Some (Inl e) \<Rightarrow> Some (Inl e)
                      | Some (Inr formats) \<Rightarrow>
                          Some (Inr
                            \<lparr>meta_data_source = data_source_name,
                             meta_title = title,
                             meta_subtitle = subtitle,
                             meta_language = languages,
                             meta_medium = medium,
                             meta_publisher = publisher,
                             meta_published = published,
                             meta_imprint = imprint,
                             meta_primary_identifier = identifier_data,
                             meta_subjects = subjects,
                             meta_contributors = contributors,
                             meta_series = None,
                             meta_series_position = None,
                             meta_links = links,
                             meta_data_source_last_updated = last_opds_update,
                             meta_circulation =
                               circulation_data\<lparr>circ_formats := formats\<rparr>\<rparr>)))))))))"

text \<open>\<open>OPDS2Importer._get_publications\<close>: the publications of the feed, then those of
  its groups.\<close>

definition get_publications :: "feed \<Rightarrow> publication list" where
  "get_publications feed =
     feed_publications feed @ concat (map group_publications (feed_groups feed))"






section \<open>Link consolidation\<close>




section \<open>Mirroring representations to S3 (s3.py)\<close>


















section \<open>The session cache (core/model/hassessioncache.py)\<close>

text \<open>
  A cached record has a database id and a cache key. Reading either of an object whose
  state is no longer valid raises \<open>SQLAlchemyError\<close>; \<open>obj_expired\<close> marks such an
  object. \<open>obj_data\<close> stands for the rest of the row.
\<close>

record cached_obj =
  obj_id :: int
  obj_key :: string
  obj_expired :: bool
  obj_data :: string

text \<open>\<open>CacheTuple\<close>: the dictionary by id, the dictionary by cache key and the
  statistics.\<close>

record cache =
  cache_id :: "(int, cached_obj) fmap"
  cache_key :: "(string, cached_obj) fmap"
  stats_hits :: nat
  stats_misses :: nat

text \<open>
  The database session, as far as the cache asks it: the objects that are in the
  session (\<open>obj in db\<close>) and those marked as deleted (\<open>obj in db.deleted\<close>). A cache miss
  hook may read and change the session and returns a record, or \<open>None\<close>, and whether
  it is new.
\<close>

record session =
  db_objects :: "cached_obj list"
  db_deleted :: "cached_obj list"

type_synonym cache_miss_hook = "session \<Rightarrow> (cached_obj option \<times> bool) \<times> session"

text \<open>\<open>obj.cache_key()\<close> and \<open>obj.id\<close>.\<close>

definition read_cache_key :: "cached_obj \<Rightarrow> error + string" where
  "read_cache_key obj = (if obj_expired obj then Inl SQLAlchemyError else Inr (obj_key obj))"

definition read_id :: "cached_obj \<Rightarrow> error + int" where
  "read_id obj = (if obj_expired obj then Inl SQLAlchemyError else Inr (obj_id obj))"

text \<open>The cache \<open>_cache_from_session\<close> creates for a class it has not seen.\<close>

definition empty_cache :: cache where
  "empty_cache = \<lparr>cache_id = fmempty, cache_key = fmempty, stats_hits = 0, stats_misses = 0\<rparr>"

text \<open>\<open>HasSessionCache._cache_insert\<close>. An exception leaves before any write.\<close>

definition cache_insert :: "cached_obj \<Rightarrow> cache \<Rightarrow> error + cache" where
  "cache_insert obj cache =
     (case read_cache_key obj of
        Inl e \<Rightarrow> Inl e
      | Inr key \<Rightarrow>
          (case read_id obj of
             Inl e \<Rightarrow> Inl e
           | Inr ident \<Rightarrow>
               Inr (cache\<lparr>cache_id := fmupd ident obj (cache_id cache),
                          cache_key := fmupd key obj (cache_key cache)\<rparr>)))"

text \<open>
  \<open>HasSessionCache._cache_remove\<close>. \<open>dict.pop\<close> of a missing key raises \<open>KeyError\<close>; it
  and \<open>SQLAlchemyError\<close> are caught and both dictionaries are cleared, also when the
  first \<open>pop\<close> has already removed an entry.
\<close>

definition cache_reset :: "cache \<Rightarrow> cache" where
  "cache_reset cache = cache\<lparr>cache_id := fmempty, cache_key := fmempty\<rparr>"

definition cache_remove :: "cached_obj \<Rightarrow> cache \<Rightarrow> cache" where
  "cache_remove obj cache =
     (case read_cache_key obj of
        Inl e \<Rightarrow> cache_reset cache
      | Inr key \<Rightarrow>
          (case read_id obj of
             Inl e \<Rightarrow> cache_reset cache
           | Inr ident \<Rightarrow>
               if fmlookup (cache_id cache) ident = None then cache_reset cache
               else if fmlookup (cache_key cache) key = None then cache_reset cache
               else cache\<lparr>cache_id := fmdrop ident (cache_id cache),
                          cache_key := fmdrop key (cache_key cache)\<rparr>))"

text \<open>
  \<open>HasSessionCache._cache_lookup\<close>. Its callers are \<open>by_id\<close>, with the name \<open>"id"\<close> and
  an id, and \<open>by_cache_key\<close>, with the name \<open>"key"\<close> and a cache key; a lookup key is
  one or the other. An object is gone when it is not in the session or is marked as
  deleted; the lookup then removes it and looks again. The recursion ends because
  every removal makes the dictionary that is looked into smaller.
\<close>

datatype lookup_key = ById int | ByKey string

definition lookup_cache :: "cache \<Rightarrow> lookup_key \<Rightarrow> cached_obj option" where
  "lookup_cache cache k =
     (case k of ById i \<Rightarrow> fmlookup (cache_id cache) i | ByKey s \<Rightarrow> fmlookup (cache_key cache) s)"

definition lookup_cache_size :: "cache \<Rightarrow> lookup_key \<Rightarrow> nat" where
  "lookup_cache_size cache k =
     (case k of ById i \<Rightarrow> card (fmdom' (cache_id cache)) | ByKey s \<Rightarrow> card (fmdom' (cache_key cache)))"

definition gone :: "session \<Rightarrow> cached_obj \<Rightarrow> bool" where
  "gone db obj = (obj \<notin> set (db_objects db) \<or> obj \<in> set (db_deleted db))"

lemma cache_remove_smaller:
  assumes "lookup_cache cache k = Some obj"
  shows "lookup_cache_size (cache_remove obj' cache) k < lookup_cache_size cache k"
proof -
  have pos: "0 < lookup_cache_size cache k"
    using assms
    by (auto simp: lookup_cache_def lookup_cache_size_def card_gt_0_iff
             split: lookup_key.splits dest: fmdom'I)
  have drop: "card (fmdom' m - {a}) < card (fmdom' m)" if "fmlookup m a = Some y"
    for m :: "('a, cached_obj) fmap" and a y
    using that by (intro card_Diff1_less) (simp_all add: fmdom'I)
  show ?thesis
    using pos
    by (auto simp: cache_remove_def cache_reset_def lookup_cache_size_def read_id_def
          read_cache_key_def drop split: lookup_key.splits)
qed

function cache_lookup ::
  "session \<Rightarrow> cache \<Rightarrow> lookup_key \<Rightarrow> cache_miss_hook \<Rightarrow>
   (error + cached_obj option \<times> bool) \<times> cache \<times> session"
where
  "cache_lookup db cache k cache_miss_hook =
     (case lookup_cache cache k of
        Some obj \<Rightarrow>
          if gone db obj
          then cache_lookup db (cache_remove obj cache) k cache_miss_hook
          else (Inr (Some obj, False), cache\<lparr>stats_hits := stats_hits cache + 1\<rparr>, db)
      | None \<Rightarrow>
          (let cache1 = cache\<lparr>stats_misses := stats_misses cache + 1\<rparr>;
               ((obj, new), db1) = cache_miss_hook db
           in (case obj of
                 None \<Rightarrow> (Inr (obj, new), cache1, db1)
               | Some found \<Rightarrow>
                   (case cache_insert found cache1 of
                      Inl e \<Rightarrow> (Inl e, cache1, db1)
                    | Inr cache2 \<Rightarrow> (Inr (obj, new), cache2, db1)))))"
  by pat_completeness auto
termination
  by (relation "measure (\<lambda>(db, cache, k, hook). lookup_cache_size cache k)")
     (auto simp: cache_remove_smaller)



text \<open>\<open>HasSessionCache.cache_warm\<close>, given the objects \<open>get_objects()\<close> returns: the
  exception of an insert, if any, and the cache as the call leaves it.\<close>

fun cache_warm :: "cached_obj list \<Rightarrow> cache \<Rightarrow> error option \<times> cache" where
  "cache_warm [] cache = (None, cache)"
| "cache_warm (obj # objects) cache =
     (case cache_insert obj cache of
        Inl e \<Rightarrow> (Some e, cache)
      | Inr cache1 \<Rightarrow> cache_warm objects cache1)"


definition by_id ::
  "(session \<Rightarrow> int \<Rightarrow> cached_obj option) \<Rightarrow> session \<Rightarrow> cache \<Rightarrow> int \<Rightarrow>
   (error + cached_obj option) \<times> cache \<times> session"
where
  "by_id get_one db cache ident =
     (let lookup_hook = (\<lambda>db. ((get_one db ident, False), db));
          (result, cache1, db1) = cache_lookup db cache (ById ident) lookup_hook
      in (case result of Inl e \<Rightarrow> Inl e | Inr (obj, new) \<Rightarrow> Inr obj, cache1, db1))"

text \<open>
  A sequence of calls on the cache of one session. A call that raises leaves the cache
  as it is at the raise.
\<close>

datatype cache_op =
    CacheWarm "cached_obj list"
  | CacheInsert cached_obj
  | CacheRemove cached_obj
  | CacheLookup lookup_key cache_miss_hook

fun apply_op :: "cache \<times> session \<Rightarrow> cache_op \<Rightarrow> cache \<times> session" where
  "apply_op (cache, db) (CacheWarm objects) = (snd (cache_warm objects cache), db)"
| "apply_op (cache, db) (CacheInsert obj) =
     (case cache_insert obj cache of Inl e \<Rightarrow> (cache, db) | Inr cache1 \<Rightarrow> (cache1, db))"
| "apply_op (cache, db) (CacheRemove obj) = (cache_remove obj cache, db)"
| "apply_op (cache, db) (CacheLookup k cache_miss_hook) =
     snd (cache_lookup db cache k cache_miss_hook)"

definition run_ops :: "cache_op list \<Rightarrow> cache \<times> session \<Rightarrow> cache \<times> session" where
  "run_ops ops state = foldl apply_op state ops"


section \<open>Example inputs\<close>

text \<open>The constants of a deployment, as the OPDS specifications spell them.\<close>

definition example_env :: env where
  "example_env =
     \<lparr>KNOWN_DRM_TYPES = [''application/vnd.adobe.adept+xml''],
      NO_DRM = None,
      BOOK_MEDIA_TYPES = [''application/epub+zip'', ''application/pdf''],
      AUDIOBOOK_MEDIA_TYPES = [''application/audiobook+json''],
      CIRCULATION_ALLOWED =
        [''http://opds-spec.org/acquisition/open-access'', ''http://opds-spec.org/acquisition''],
      AVAILABLE = ''available'',
      IMAGE = ''http://opds-spec.org/image'',
      THUMBNAIL_IMAGE = ''http://opds-spec.org/image/thumbnail'',
      DESCRIPTION = ''http://schema.org/description'',
      OPEN_ACCESS_DOWNLOAD = ''http://opds-spec.org/acquisition/open-access'',
      TEXT_PLAIN = ''text/plain'',
      NO_TITLE = ''NO TITLE'',
      SELF_REL = ''self'',
      TAG = ''tag'',
      UNLIMITED_ACCESS = - 1,
      OPEN_ACCESS_RIGHTS = [''http://librarysimplified.org/terms/rights-status/public-domain''],
      REPRESENTATION_BOOK_MEDIA_TYPES = [''application/epub+zip'', ''application/pdf''],
      medium_from_media_type =
        (\<lambda>t. if t = Some ''application/epub+zip'' \<or> t = Some ''application/pdf''
             then Some ''Book''
             else if t = Some ''application/audiobook+json'' then Some ''Audio'' else None),
      additional_type_to_medium =
        [''http://schema.org/EBook'' \<mapsto> ''Book'', ''http://bib.schema.org/Audiobook'' \<mapsto> ''Audio''],
      subject_by_uri = Map.empty,
      rights_uri_from_string = (\<lambda>s. Some ''http://librarysimplified.org/terms/rights-status/unknown''),
      url_netloc = (\<lambda>u. if take 7 u = ''http://'' then takeWhile (\<lambda>c. c \<noteq> CHR ''/'') (drop 7 u) else []),
      urljoin = (\<lambda>b u. b @ u),
      parse_identifier =
        (\<lambda>s. case s of None \<Rightarrow> None
              | Some v \<Rightarrow> if take 4 v = ''urn:'' then Some \<lparr>id_type = ''URI'', id_identifier = Some v\<rparr>
                          else None),
      ignored_identifier_types = [],
      importer_data_source = ''Example feed'',
      importer_data_source_name = ''Example feed''\<rparr>"

definition example_metadata :: ast_metadata where
  "example_metadata =
     \<lparr>md_identifier = Some ''urn:isbn:9780000000001'', md_title = Some ''A title'',
      md_subtitle = None, md_type = None, md_description = None, md_languages = [''en''],
      md_publishers = [], md_imprints = [], md_published = None, md_modified = None,
      md_subjects = [], md_authors = [], md_translators = [], md_editors = [],
      md_artists = [], md_illustrators = [], md_letterers = [], md_pencilers = [],
      md_colorists = [], md_inkers = [], md_narrators = [], md_contributors = []\<rparr>"

definition example_link :: "string \<Rightarrow> ast_link" where
  "example_link href =
     \<lparr>link_href = href, link_type = None, link_rels = [], link_properties = None,
      link_width = None, link_height = None\<rparr>"

text \<open>A publication with two images, neither of which declares a width or a height.\<close>

definition two_equal_images :: publication where
  "two_equal_images =
     \<lparr>pub_metadata = example_metadata, pub_links = [],
      pub_images = Some [example_link ''http://example.org/first.jpg'',
                         example_link ''http://example.org/second.jpg'']\<rparr>"

text \<open>An acquisition link whose only indirect acquisition entry is a chain of two
  children: Adobe DRM, then a container, then EPUB.\<close>

definition drm_chain_link :: ast_link where
  "drm_chain_link =
     \<lparr>link_href = ''http://example.org/borrow/1'',
      link_type = Some ''application/atom+xml'',
      link_rels = [''http://opds-spec.org/acquisition''],
      link_properties = Some
        \<lparr>lp_availability = None,
         lp_indirect_acquisition =
           [AcquisitionObject (Some ''application/vnd.adobe.adept+xml'')
              [AcquisitionObject (Some ''application/x-container'')
                 [AcquisitionObject (Some ''application/epub+zip'') []]]]\<rparr>,
      link_width = None, link_height = None\<rparr>"

section \<open>Properties of the media type and DRM extraction\<close>

lemma nested_acquisition_loop_cycle:
  assumes "nested_acquisition_loop e n = Some y"
  shows "\<not> (acq_child e \<noteq> [] \<and> acq_child (hd (acq_child e)) \<noteq> [] \<and>
            (n = Some e \<or> n = Some (hd (acq_child e))))"
proof (rule nested_acquisition_loop.raw_induct
    [where P = "\<lambda>e n y. \<not> (acq_child e \<noteq> [] \<and> acq_child (hd (acq_child e)) \<noteq> [] \<and>
                   (n = Some e \<or> n = Some (hd (acq_child e))))", OF _ assms])
  fix f e n y
  assume IH: "\<And>e n y. f e n = Some y \<Longrightarrow>
      \<not> (acq_child e \<noteq> [] \<and> acq_child (hd (acq_child e)) \<noteq> [] \<and>
                   (n = Some e \<or> n = Some (hd (acq_child e))))"
    and step: "(case n of
        None \<Rightarrow> Some (Inl AttributeError)
      | Some n \<Rightarrow>
          if acq_child n \<noteq> []
          then f e (first_or_default (map Some (acq_child e)) None)
          else Some (Inr n)) = Some y"
  show "\<not> (acq_child e \<noteq> [] \<and> acq_child (hd (acq_child e)) \<noteq> [] \<and>
                   (n = Some e \<or> n = Some (hd (acq_child e))))"
  proof
    assume H: "acq_child e \<noteq> [] \<and> acq_child (hd (acq_child e)) \<noteq> [] \<and>
                   (n = Some e \<or> n = Some (hd (acq_child e)))"
    then obtain m where n: "n = Some m" and m: "acq_child m \<noteq> []" by auto
    from H have fd: "first_or_default (map Some (acq_child e)) None = Some (hd (acq_child e))"
      by (cases "acq_child e") (auto simp: first_or_default_def)
    from step n m fd have "f e (Some (hd (acq_child e))) = Some y" by simp
    from IH[OF this] H show False by simp
  qed
qed

lemma nested_acquisition_loop_diverges:
  assumes "acq_child e = c # cs" and "acq_child c \<noteq> []"
  shows "nested_acquisition_loop e (Some e) = None"
proof (cases "nested_acquisition_loop e (Some e)")
  case None
  then show ?thesis .
next
  case (Some y)
  from nested_acquisition_loop_cycle[OF Some] assms show ?thesis by simp
qed

lemma nested_acquisition_loop_no_child:
  "acq_child e = [] \<Longrightarrow> nested_acquisition_loop e (Some e) = Some (Inr e)"
  by (subst nested_acquisition_loop.simps) simp

lemma nested_acquisition_loop_one_child:
  assumes "acq_child e = c # cs" and "acq_child c = []"
  shows "nested_acquisition_loop e (Some e) = Some (Inr c)"
proof -
  have "nested_acquisition_loop e (Some e) = nested_acquisition_loop e (Some c)"
    using assms(1) by (subst nested_acquisition_loop.simps) (simp add: first_or_default_def)
  also have "\<dots> = Some (Inr c)"
    using assms(2) by (subst nested_acquisition_loop.simps) simp
  finally show ?thesis .
qed

text \<open>
  C5. The chain is not followed to its innermost child. When the first child of an
  indirect acquisition entry itself has a child, the loop of
  \<open>_extract_media_types_and_drm_scheme_from_link\<close> keeps reassigning the same first
  child and the call never returns, so the link yields no format at all.
\<close>

theorem chain_of_two_children_never_returns:
  assumes "link_properties link = Some properties"
    and "case lp_availability properties of None \<Rightarrow> True | Some a \<Rightarrow> av_state a = AVAILABLE env"
    and "lp_indirect_acquisition properties = entry # entries"
    and "acq_child entry = c # cs"
    and "acq_child c \<noteq> []"
  shows "extract_media_types_and_drm_scheme_from_link env link = None"
  using assms(1-3) nested_acquisition_loop_diverges[OF assms(4) assms(5)]
  by (simp add: extract_media_types_and_drm_scheme_from_link_def)

theorem chain_of_two_children_never_returns_witness:
  "link_properties drm_chain_link =
     Some \<lparr>lp_availability = None,
           lp_indirect_acquisition =
             [AcquisitionObject (Some ''application/vnd.adobe.adept+xml'')
                [AcquisitionObject (Some ''application/x-container'')
                   [AcquisitionObject (Some ''application/epub+zip'') []]]]\<rparr>
   \<and> extract_media_types_and_drm_scheme_from_link example_env drm_chain_link = None"
  using chain_of_two_children_never_returns
        [where link = drm_chain_link and env = example_env
           and properties = "the (link_properties drm_chain_link)"
           and entry = "hd (lp_indirect_acquisition (the (link_properties drm_chain_link)))"
           and entries = "[]"
           and c = "AcquisitionObject (Some ''application/x-container'')
                      [AcquisitionObject (Some ''application/epub+zip'') []]"
           and cs = "[]"]
  by (simp add: drm_chain_link_def)

section \<open>Properties of feed extraction\<close>














text \<open>
  Example inputs: publications that differ in their identifier, a feed without a self
  link, a feed whose second publication has the acquisition link with the chain of
  two children, and a well-formed feed of three publications for which the parser
  reports an error in the second.
\<close>

definition example_publication :: "string \<Rightarrow> publication" where
  "example_publication urn =
     \<lparr>pub_metadata = example_metadata\<lparr>md_identifier := Some urn\<rparr>, pub_links = [],
      pub_images = None\<rparr>"

definition feed_without_self_link :: feed where
  "feed_without_self_link =
     \<lparr>feed_links = [],
      feed_publications = [example_publication ''urn:isbn:1'', example_publication ''urn:isbn:2'',
                           example_publication ''urn:isbn:3''],
      feed_groups = []\<rparr>"

definition example_self_link :: ast_link where
  "example_self_link = example_link ''http://example.org/feed'' \<lparr>link_rels := [''self'']\<rparr>"

definition feed_with_drm_chain :: feed where
  "feed_with_drm_chain =
     \<lparr>feed_links = [example_self_link],
      feed_publications =
        [example_publication ''urn:isbn:1'',
         example_publication ''urn:isbn:2'' \<lparr>pub_links := [drm_chain_link]\<rparr>,
         example_publication ''urn:isbn:3''],
      feed_groups = []\<rparr>"

definition three_publication_feed :: feed where
  "three_publication_feed =
     \<lparr>feed_links = [example_self_link],
      feed_publications = [example_publication ''urn:isbn:1'', example_publication ''urn:isbn:2'',
                           example_publication ''urn:isbn:3''],
      feed_groups = []\<rparr>"


definition example_record :: "string \<Rightarrow> metadata" where
  "example_record urn =
     \<lparr>meta_data_source = ''Example feed'', meta_title = Some ''A title'',
      meta_subtitle = None, meta_language = Some ''en'',
      meta_medium = None, meta_publisher = None, meta_published = None,
      meta_imprint = None,
      meta_primary_identifier = \<lparr>idd_type = ''URI'', idd_identifier = Some urn\<rparr>,
      meta_subjects = [], meta_contributors = [], meta_series = None,
      meta_series_position = None, meta_links = [],
      meta_data_source_last_updated = None,
      meta_circulation =
        \<lparr>circ_default_rights_uri =
           Some ''http://librarysimplified.org/terms/rights-status/unknown'',
         circ_data_source = ''Example feed'',
         circ_primary_identifier = \<lparr>idd_type = ''URI'', idd_identifier = Some urn\<rparr>,
         circ_links = [], circ_licenses_owned = - 1,
         circ_licenses_available = - 1, circ_licenses_reserved = 0,
         circ_patrons_in_hold_queue = 0, circ_formats = []\<rparr>\<rparr>"


lemma example_env_fields:
  "KNOWN_DRM_TYPES example_env = [''application/vnd.adobe.adept+xml'']"
  "NO_DRM example_env = None"
  "BOOK_MEDIA_TYPES example_env = [''application/epub+zip'', ''application/pdf'']"
  "AUDIOBOOK_MEDIA_TYPES example_env = [''application/audiobook+json'']"
  "CIRCULATION_ALLOWED example_env =
     [''http://opds-spec.org/acquisition/open-access'', ''http://opds-spec.org/acquisition'']"
  "AVAILABLE example_env = ''available''"
  "IMAGE example_env = ''http://opds-spec.org/image''"
  "THUMBNAIL_IMAGE example_env = ''http://opds-spec.org/image/thumbnail''"
  "NO_TITLE example_env = ''NO TITLE''"
  "SELF_REL example_env = ''self''"
  "UNLIMITED_ACCESS example_env = - 1"
  "rights_uri_from_string example_env s =
     Some ''http://librarysimplified.org/terms/rights-status/unknown''"
  "parse_identifier example_env v =
     (case v of None \<Rightarrow> None
      | Some v \<Rightarrow> if take 4 v = ''urn:'' then Some \<lparr>id_type = ''URI'', id_identifier = Some v\<rparr>
                   else None)"
  "ignored_identifier_types example_env = []"
  "importer_data_source example_env = ''Example feed''"
  "importer_data_source_name example_env = ''Example feed''"
  by (simp_all add: example_env_def)

lemma example_identifier:
  assumes "take 4 urn = ''urn:''"
  shows "extract_identifier example_env (example_publication urn) =
           Some \<lparr>id_type = ''URI'', id_identifier = Some urn\<rparr>"
  using assms
  by (simp add: extract_identifier_def example_publication_def example_metadata_def
        example_env_fields)


lemma example_extraction:
  assumes "take 4 urn = ''urn:''" and "feed_links feed = [example_self_link]"
  shows "extract_publication_metadata example_env feed
           (example_publication urn) ''Example feed'' = Some (Inr (example_record urn))"
  unfolding extract_publication_metadata_def example_identifier[OF assms(1)] assms(2)
  by (simp add: example_publication_def example_metadata_def
        example_self_link_def example_link_def get_by_rel_def extract_medium_from_links_def
        extract_medium_def extract_links_def extract_description_link_def
        extract_image_links_def extract_subjects_def extract_contributors_def
        first_or_default_def truthy_def example_record_def Let_def example_env_fields)






lemma example_feeds:
  "feed_links feed_without_self_link = []"
  "get_publications feed_without_self_link =
     [example_publication ''urn:isbn:1'', example_publication ''urn:isbn:2'',
      example_publication ''urn:isbn:3'']"
  "feed_links feed_with_drm_chain = [example_self_link]"
  "get_publications feed_with_drm_chain =
     [example_publication ''urn:isbn:1'',
      example_publication ''urn:isbn:2'' \<lparr>pub_links := [drm_chain_link]\<rparr>,
      example_publication ''urn:isbn:3'']"
  "feed_links three_publication_feed = [example_self_link]"
  "get_publications three_publication_feed =
     [example_publication ''urn:isbn:1'', example_publication ''urn:isbn:2'',
      example_publication ''urn:isbn:3'']"
  by (simp_all add: feed_without_self_link_def feed_with_drm_chain_def
        three_publication_feed_def get_publications_def)








section \<open>Properties of the medium\<close>

lemma extract_medium_from_links_loop_skips:
  assumes "\<forall>link \<in> set links.
             link_rels link = [] \<or> \<not> truthy (link_type link) \<or> \<not> is_acquisition_link env link"
  shows "extract_medium_from_links_loop env derived links = Some (Inr derived)"
  using assms by (induction links) simp_all

lemma extract_publication_metadata_medium:
  assumes "extract_publication_metadata env feed publication name = Some (Inr m)"
    and "extract_medium_from_links env (pub_links publication) = Some (Inr derived_medium)"
  shows "meta_medium m = extract_medium env publication derived_medium"
  using assms
  by (auto simp: extract_publication_metadata_def Let_def
           split: option.splits sum.splits list.splits)

text \<open>
  C4. The medium of the extracted record is absent, not \<open>book\<close>, when the publication
  declares no type and none of its links is a typed acquisition link:
  \<open>_extract_publication_metadata\<close> passes the medium derived from the links, which is
  \<open>None\<close> here, as the default of \<open>_extract_medium\<close>.
\<close>

theorem medium_absent_without_type_and_acquisition_link:
  assumes "\<not> truthy (md_type (pub_metadata publication))"
    and "\<forall>link \<in> set (pub_links publication).
           link_rels link = [] \<or> \<not> truthy (link_type link) \<or> \<not> is_acquisition_link env link"
    and "extract_publication_metadata env feed publication name = Some (Inr m)"
  shows "meta_medium m = None"
proof -
  have "extract_medium_from_links env (pub_links publication) = Some (Inr None)"
    using extract_medium_from_links_loop_skips[OF assms(2), of None]
    by (simp add: extract_medium_from_links_def)
  from extract_publication_metadata_medium[OF assms(3) this] assms(1) show ?thesis
    by (simp add: extract_medium_def truthy_def split: option.splits)
qed

theorem medium_absent_without_type_and_acquisition_link_witness:
  "extract_publication_metadata example_env three_publication_feed
     (example_publication ''urn:isbn:1'') ''Example feed'' =
     Some (Inr (example_record ''urn:isbn:1''))
   \<and> md_type (pub_metadata (example_publication ''urn:isbn:1'')) = None
   \<and> pub_links (example_publication ''urn:isbn:1'') = []
   \<and> meta_medium (example_record ''urn:isbn:1'') = None"
proof -
  have run: "extract_publication_metadata example_env three_publication_feed
     (example_publication ''urn:isbn:1'') ''Example feed'' =
     Some (Inr (example_record ''urn:isbn:1''))"
    by (rule example_extraction) (simp_all add: example_feeds)
  have no_type: "\<not> truthy (md_type (pub_metadata (example_publication ''urn:isbn:1'')))"
    by (simp add: example_publication_def example_metadata_def truthy_def)
  have no_links: "\<forall>link \<in> set (pub_links (example_publication ''urn:isbn:1'')).
           link_rels link = [] \<or> \<not> truthy (link_type link)
           \<or> \<not> is_acquisition_link example_env link"
    by (simp add: example_publication_def)
  from medium_absent_without_type_and_acquisition_link[OF no_type no_links run] run
  show ?thesis
    by (simp add: example_publication_def example_metadata_def)
qed

section \<open>Properties of the image links\<close>

lemma extract_image_links_take:
  assumes "pub_images publication = Some images" and "images \<noteq> []"
  shows "extract_image_links env publication url =
           map (\<lambda>(link, rel). extract_link env link url (Some rel))
             (zip (take 2 (sorted_raw_image_links images)) [IMAGE env, THUMBNAIL_IMAGE env])"
proof -
  obtain x xs where s: "sorted_raw_image_links images = x # xs"
    using assms(2) length_sort[of image_key images]
    by (cases "sorted_raw_image_links images")
       (auto simp: sorted_raw_image_links_def simp del: length_sort)
  show ?thesis
    using assms s by (cases xs) (simp_all add: extract_image_links_def Let_def)
qed

lemma sorted_raw_image_links_mset: "mset (sorted_raw_image_links images) = mset images"
  by (simp add: sorted_raw_image_links_def)

lemma sorted_raw_image_links_descending:
  "sorted (rev (map image_key (sorted_raw_image_links images)))"
  by (simp add: sorted_raw_image_links_def rev_map)

lemma sorted_raw_image_links_ties:
  "filter (\<lambda>l. image_key l = k) (sorted_raw_image_links images) =
     rev (filter (\<lambda>l. image_key l = k) images)"
  unfolding sorted_raw_image_links_def rev_filter[symmetric] sort_key_stable ..

lemma extract_link_rel:
  "ld_rel (extract_link env link url d) =
     (case link_rels link of [] \<Rightarrow> d | rel # _ \<Rightarrow> Some rel)"
  by (simp add: extract_link_def first_or_default_def Let_def split: list.splits)

text \<open>
  C6, as stated, fails: of two images of equal size the one declared later becomes the
  cover, so the result differs from the image links the specification describes.
\<close>

theorem image_ties_declared_order_counterexample:
  "map ld_href (extract_image_links example_env two_equal_images []) =
     [Some ''http://example.org/second.jpg'', Some ''http://example.org/first.jpg'']
   \<and> map ld_href (spec_image_links example_env two_equal_images []) =
     [Some ''http://example.org/first.jpg'', Some ''http://example.org/second.jpg'']
   \<and> extract_image_links example_env two_equal_images []
       \<noteq> spec_image_links example_env two_equal_images []"
proof -
  have a: "map ld_href (extract_image_links example_env two_equal_images []) =
     [Some ''http://example.org/second.jpg'', Some ''http://example.org/first.jpg'']"
    by (simp add: extract_image_links_def two_equal_images_def sorted_raw_image_links_def
          image_key_def example_link_def extract_link_def Let_def first_or_default_def
          example_env_def)
  have b: "map ld_href (spec_image_links example_env two_equal_images []) =
     [Some ''http://example.org/first.jpg'', Some ''http://example.org/second.jpg'']"
    by (simp add: spec_image_links_def two_equal_images_def image_key_def example_link_def
          extract_link_def Let_def first_or_default_def example_env_def
          image_link_with_rel_def)
  from a b have "extract_image_links example_env two_equal_images []
       \<noteq> spec_image_links example_env two_equal_images []"
    by auto
  with a b show ?thesis by blast
qed

text \<open>
  C6, amended. For a publication with a non-empty image list the image links are the
  first two of the images in descending order of (width or 0, height or 0), so at most
  two; that order is a rearrangement of the declared images in which images of equal
  size appear in the reverse of their declared order; the first is extracted with the
  image relation as its default and the second with the thumbnail relation as its
  default, and a default is used only for a link that declares no relation of its own.
\<close>

theorem image_links_largest_first_ties_reversed:
  assumes "pub_images publication = Some images" and "images \<noteq> []"
  shows "extract_image_links env publication url =
           map (\<lambda>(link, rel). extract_link env link url (Some rel))
             (zip (take 2 (sorted_raw_image_links images)) [IMAGE env, THUMBNAIL_IMAGE env])
       \<and> length (extract_image_links env publication url) \<le> 2
       \<and> mset (sorted_raw_image_links images) = mset images
       \<and> sorted (rev (map image_key (sorted_raw_image_links images)))
       \<and> (\<forall>k. filter (\<lambda>l. image_key l = k) (sorted_raw_image_links images) =
                rev (filter (\<lambda>l. image_key l = k) images))
       \<and> (\<forall>link rel. ld_rel (extract_link env link url (Some rel)) =
                (case link_rels link of [] \<Rightarrow> Some rel | r # _ \<Rightarrow> Some r))"
proof -
  have take: "extract_image_links env publication url =
           map (\<lambda>(link, rel). extract_link env link url (Some rel))
             (zip (take 2 (sorted_raw_image_links images)) [IMAGE env, THUMBNAIL_IMAGE env])"
    by (rule extract_image_links_take[OF assms])
  have len: "length (extract_image_links env publication url) \<le> 2"
    unfolding take by simp
  show ?thesis
    using take len sorted_raw_image_links_mset sorted_raw_image_links_descending
      sorted_raw_image_links_ties
    by (simp add: extract_link_rel)
qed

theorem image_links_largest_first_ties_reversed_witness:
  "pub_images two_equal_images =
     Some [example_link ''http://example.org/first.jpg'',
           example_link ''http://example.org/second.jpg'']
   \<and> extract_image_links example_env two_equal_images [] =
       [extract_link example_env (example_link ''http://example.org/second.jpg'') []
          (Some (IMAGE example_env)),
        extract_link example_env (example_link ''http://example.org/first.jpg'') []
          (Some (THUMBNAIL_IMAGE example_env))]"
  using image_links_largest_first_ties_reversed
        [of two_equal_images "[example_link ''http://example.org/first.jpg'',
                               example_link ''http://example.org/second.jpg'']"
            example_env "[]"]
  by (simp add: two_equal_images_def sorted_raw_image_links_def image_key_def
        example_link_def)

section \<open>Properties of link consolidation\<close>









section \<open>Properties of mirroring\<close>































section \<open>Properties of the session cache\<close>

text \<open>
  Ids and cache keys correspond one to one when there is an injective \<open>key_of\<close> that
  gives the cache key of every record from its id. A call respects it when every record
  it inserts, removes or gets from its hook does; a removed record may also be expired.
\<close>

definition well_keyed :: "(int \<Rightarrow> string) \<Rightarrow> cached_obj \<Rightarrow> bool" where
  "well_keyed key_of obj = (\<not> obj_expired obj \<and> obj_key obj = key_of (obj_id obj))"

fun op_well_keyed :: "(int \<Rightarrow> string) \<Rightarrow> cache_op \<Rightarrow> bool" where
  "op_well_keyed key_of (CacheWarm objects) = (\<forall>obj \<in> set objects. well_keyed key_of obj)"
| "op_well_keyed key_of (CacheInsert obj) = well_keyed key_of obj"
| "op_well_keyed key_of (CacheRemove obj) = (obj_expired obj \<or> well_keyed key_of obj)"
| "op_well_keyed key_of (CacheLookup k cache_miss_hook) =
     (\<forall>db obj. fst (fst (cache_miss_hook db)) = Some obj \<longrightarrow> well_keyed key_of obj)"

text \<open>The invariant: each dictionary holds a record under its own id or key, and the
  other dictionary holds the same record.\<close>

definition lock_step :: "(int \<Rightarrow> string) \<Rightarrow> cache \<Rightarrow> bool" where
  "lock_step key_of cache =
     ((\<forall>i x. fmlookup (cache_id cache) i = Some x \<longrightarrow>
          obj_id x = i \<and> well_keyed key_of x \<and> fmlookup (cache_key cache) (obj_key x) = Some x)
    \<and> (\<forall>k x. fmlookup (cache_key cache) k = Some x \<longrightarrow>
          obj_key x = k \<and> well_keyed key_of x \<and> fmlookup (cache_id cache) (obj_id x) = Some x))"

lemma lock_step_idD:
  assumes "lock_step key_of cache" and "fmlookup (cache_id cache) i = Some x"
  shows "obj_id x = i" and "\<not> obj_expired x" and "obj_key x = key_of i"
    and "fmlookup (cache_key cache) (key_of i) = Some x"
  using assms unfolding lock_step_def well_keyed_def by metis+

lemma lock_step_keyD:
  assumes "lock_step key_of cache" and "fmlookup (cache_key cache) k = Some x"
  shows "obj_key x = k" and "\<not> obj_expired x" and "k = key_of (obj_id x)"
    and "fmlookup (cache_id cache) (obj_id x) = Some x"
  using assms unfolding lock_step_def well_keyed_def by metis+

lemma lock_step_records:
  assumes "lock_step key_of cache"
  shows "fmran' (cache_id cache) = fmran' (cache_key cache)"
  using assms unfolding lock_step_def by (auto simp: fmlookup_ran'_iff) blast+

lemma lock_step_empty: "lock_step key_of empty_cache"
  by (simp add: lock_step_def empty_cache_def)

lemma lock_step_reset: "lock_step key_of (cache_reset cache)"
  by (simp add: lock_step_def cache_reset_def)

lemma lock_step_stats:
  "lock_step key_of (cache\<lparr>stats_hits := h\<rparr>) = lock_step key_of cache"
  "lock_step key_of (cache\<lparr>stats_misses := m\<rparr>) = lock_step key_of cache"
  by (simp_all add: lock_step_def)

lemma lock_step_insert:
  assumes "inj key_of" and "lock_step key_of cache" and "well_keyed key_of obj"
    and "cache_insert obj cache = Inr cache1"
  shows "lock_step key_of cache1"
proof -
  from assms(3,4) have c1: "cache1 = cache\<lparr>cache_id := fmupd (obj_id obj) obj (cache_id cache),
                          cache_key := fmupd (obj_key obj) obj (cache_key cache)\<rparr>"
    by (auto simp: cache_insert_def read_id_def read_cache_key_def well_keyed_def)
  from assms(3) have wk: "\<not> obj_expired obj" "obj_key obj = key_of (obj_id obj)"
    by (simp_all add: well_keyed_def)
  show ?thesis
    unfolding lock_step_def
  proof (rule conjI; intro allI impI)
    fix i x assume a: "fmlookup (cache_id cache1) i = Some x"
    show "obj_id x = i \<and> well_keyed key_of x \<and> fmlookup (cache_key cache1) (obj_key x) = Some x"
    proof (cases "obj_id obj = i")
      case True
      with a wk show ?thesis by (simp add: c1 well_keyed_def)
    next
      case False
      with a have old: "fmlookup (cache_id cache) i = Some x" by (simp add: c1)
      from False assms(1) have "key_of (obj_id obj) \<noteq> key_of i" by (auto dest: injD)
      with lock_step_idD[OF assms(2) old] wk show ?thesis
        by (simp add: c1 well_keyed_def)
    qed
  next
    fix k x assume a: "fmlookup (cache_key cache1) k = Some x"
    show "obj_key x = k \<and> well_keyed key_of x \<and> fmlookup (cache_id cache1) (obj_id x) = Some x"
    proof (cases "obj_key obj = k")
      case True
      with a wk show ?thesis by (simp add: c1 well_keyed_def)
    next
      case False
      with a have old: "fmlookup (cache_key cache) k = Some x" by (simp add: c1)
      from lock_step_keyD[OF assms(2) old] False wk have "obj_id obj \<noteq> obj_id x" by auto
      with lock_step_keyD[OF assms(2) old] show ?thesis
        by (simp add: c1 well_keyed_def)
    qed
  qed
qed

lemma lock_step_remove:
  assumes "inj key_of" and "lock_step key_of cache" and "obj_expired obj \<or> well_keyed key_of obj"
  shows "lock_step key_of (cache_remove obj cache)"
proof (cases "cache_remove obj cache = cache_reset cache")
  case True
  then show ?thesis by (simp add: lock_step_reset)
next
  case False
  then have c1: "cache_remove obj cache =
                   cache\<lparr>cache_id := fmdrop (obj_id obj) (cache_id cache),
                         cache_key := fmdrop (obj_key obj) (cache_key cache)\<rparr>"
    and ne: "\<not> obj_expired obj"
    by (auto simp: cache_remove_def read_id_def read_cache_key_def split: if_splits)
  with assms(3) have wk: "obj_key obj = key_of (obj_id obj)" by (simp add: well_keyed_def)
  show ?thesis
    unfolding lock_step_def
  proof (rule conjI; intro allI impI)
    fix i x assume a: "fmlookup (cache_id (cache_remove obj cache)) i = Some x"
    then have ne: "i \<noteq> obj_id obj" and old: "fmlookup (cache_id cache) i = Some x"
      by (auto simp: c1 split: if_splits)
    from ne assms(1) have "key_of i \<noteq> key_of (obj_id obj)" by (auto dest: injD)
    with lock_step_idD[OF assms(2) old] wk
    show "obj_id x = i \<and> well_keyed key_of x
          \<and> fmlookup (cache_key (cache_remove obj cache)) (obj_key x) = Some x"
      by (simp add: c1 well_keyed_def)
  next
    fix k x assume a: "fmlookup (cache_key (cache_remove obj cache)) k = Some x"
    then have ne: "k \<noteq> obj_key obj" and old: "fmlookup (cache_key cache) k = Some x"
      by (auto simp: c1 split: if_splits)
    from lock_step_keyD[OF assms(2) old] ne wk have "obj_id x \<noteq> obj_id obj" by auto
    with lock_step_keyD[OF assms(2) old]
    show "obj_key x = k \<and> well_keyed key_of x
          \<and> fmlookup (cache_id (cache_remove obj cache)) (obj_id x) = Some x"
      by (simp add: c1 well_keyed_def)
  qed
qed

lemma lock_step_lookup:
  assumes "inj key_of"
    and "\<forall>db obj. fst (fst (cache_miss_hook db)) = Some obj \<longrightarrow> well_keyed key_of obj"
    and "lock_step key_of cache"
  shows "lock_step key_of (fst (snd (cache_lookup db cache k cache_miss_hook)))"
  using assms(2,3)
proof (induction db cache k cache_miss_hook rule: cache_lookup.induct)
  case (1 db cache k cache_miss_hook)
  note hook = "1.prems"(1) and inv = "1.prems"(2)
  show ?case
  proof (cases "lookup_cache cache k")
    case None
    obtain obj new db1 where h: "cache_miss_hook db = ((obj, new), db1)"
      by (metis prod.exhaust)
    show ?thesis
    proof (cases obj)
      case None
      with \<open>lookup_cache cache k = None\<close> h inv show ?thesis
        by (subst cache_lookup.simps) (simp add: lock_step_stats)
    next
      case (Some found)
      with h have "fst (fst (cache_miss_hook db)) = Some found" by simp
      with hook have wk: "well_keyed key_of found" by blast
      show ?thesis
      proof (cases "cache_insert found (cache\<lparr>stats_misses := stats_misses cache + 1\<rparr>)")
        case (Inl e)
        with Some \<open>lookup_cache cache k = None\<close> h inv show ?thesis
          by (subst cache_lookup.simps) (simp add: lock_step_stats)
      next
        case (Inr cache2)
        from lock_step_insert[OF assms(1) _ wk Inr] inv
        have "lock_step key_of cache2" by (simp add: lock_step_stats)
        with Inr Some \<open>lookup_cache cache k = None\<close> h show ?thesis
          by (subst cache_lookup.simps) simp
      qed
    qed
  next
    case (Some obj)
    show ?thesis
    proof (cases "gone db obj")
      case True
      from Some inv have "well_keyed key_of obj"
        by (auto simp: lookup_cache_def lock_step_def split: lookup_key.splits)
      then have "lock_step key_of (cache_remove obj cache)"
        using lock_step_remove[OF assms(1) inv] by simp
      from "1.IH"[OF Some True hook this] Some True show ?thesis
        by (subst cache_lookup.simps) simp
    next
      case False
      with Some inv show ?thesis
        by (subst cache_lookup.simps) (simp add: lock_step_stats)
    qed
  qed
qed

lemma lock_step_warm:
  assumes "inj key_of" and "\<forall>obj \<in> set objects. well_keyed key_of obj"
    and "lock_step key_of cache"
  shows "lock_step key_of (snd (cache_warm objects cache))"
  using assms(2,3)
proof (induction objects arbitrary: cache)
  case Nil
  then show ?case by simp
next
  case (Cons obj objects)
  show ?case
  proof (cases "cache_insert obj cache")
    case (Inl e)
    with Cons.prems show ?thesis by simp
  next
    case (Inr cache1)
    from lock_step_insert[OF assms(1) Cons.prems(2) _ Inr] Cons.prems(1)
    have "lock_step key_of cache1" by simp
    from Cons.IH[OF _ this] Cons.prems(1) Inr show ?thesis by simp
  qed
qed

lemma lock_step_apply_op:
  assumes "inj key_of" and "op_well_keyed key_of op" and "lock_step key_of (fst state)"
  shows "lock_step key_of (fst (apply_op state op))"
proof (cases state)
  case (Pair cache db)
  show ?thesis
  proof (cases op)
    case (CacheWarm objects)
    with Pair assms lock_step_warm[OF assms(1), of objects cache] show ?thesis by simp
  next
    case (CacheInsert obj)
    with Pair assms lock_step_insert[OF assms(1), of cache obj] show ?thesis
      by (auto split: sum.splits)
  next
    case (CacheRemove obj)
    with Pair assms lock_step_remove[OF assms(1), of cache obj] show ?thesis by simp
  next
    case (CacheLookup k hook)
    with Pair assms lock_step_lookup[OF assms(1), of hook cache db k] show ?thesis by simp
  qed
qed

lemma lock_step_run_ops:
  assumes "inj key_of" and "\<forall>op \<in> set ops. op_well_keyed key_of op"
    and "lock_step key_of (fst state)"
  shows "lock_step key_of (fst (run_ops ops state))"
  using assms(2,3) unfolding run_ops_def
proof (induction ops arbitrary: state)
  case Nil
  then show ?case by simp
next
  case (Cons op ops)
  from lock_step_apply_op[OF assms(1), of op state] Cons.prems
  have "lock_step key_of (fst (apply_op state op))" by simp
  from Cons.IH[OF _ this] Cons.prems(1) show ?case by simp
qed


text \<open>Example inputs: an injective key function, records that respect it and one that
  shares the key of another record.\<close>

definition example_key_of :: "int \<Rightarrow> string" where
  "example_key_of i = (if 0 \<le> i then CHR ''+'' else CHR ''-'') # replicate (nat \<bar>i\<bar>) CHR ''x''"

lemma inj_example_key_of: "inj example_key_of"
proof (rule injI)
  fix x y assume eq: "example_key_of x = example_key_of y"
  then have sign: "(0 \<le> x) = (0 \<le> y)"
    by (auto simp: example_key_of_def split: if_splits)
  from eq have "length (example_key_of x) = length (example_key_of y)" by simp
  then have "nat \<bar>x\<bar> = nat \<bar>y\<bar>" by (simp add: example_key_of_def)
  with sign show "x = y" by arith
qed

definition record_one :: cached_obj where
  "record_one = \<lparr>obj_id = 1, obj_key = ''+x'', obj_expired = False, obj_data = ''Gutenberg''\<rparr>"

definition record_two :: cached_obj where
  "record_two = \<lparr>obj_id = 2, obj_key = ''+xx'', obj_expired = False, obj_data = ''Overdrive''\<rparr>"

definition record_two_renamed :: cached_obj where
  "record_two_renamed = \<lparr>obj_id = 2, obj_key = ''+x'', obj_expired = False, obj_data = ''Overdrive''\<rparr>"

definition empty_session :: session where
  "empty_session = \<lparr>db_objects = [], db_deleted = []\<rparr>"

text \<open>
  C9, as stated, fails: after inserting two records with different ids and the same
  cache key, the dictionary by id holds both and the dictionary by key only the second.
\<close>

theorem tables_out_of_step_counterexample:
  "record_one \<in> fmran' (cache_id (fst (run_ops [CacheInsert record_one, CacheInsert record_two_renamed]
                                          (empty_cache, empty_session))))
   \<and> record_one \<notin> fmran' (cache_key (fst (run_ops [CacheInsert record_one, CacheInsert record_two_renamed]
                                          (empty_cache, empty_session))))"
  by (auto simp: run_ops_def cache_insert_def read_id_def read_cache_key_def empty_cache_def
        record_one_def record_two_renamed_def fmlookup_ran'_iff split: if_splits)

text \<open>
  C9, amended. When ids and cache keys correspond one to one among the records the
  calls handle, then after any sequence of \<open>cache_warm\<close>, \<open>_cache_insert\<close>,
  \<open>_cache_remove\<close> and \<open>_cache_lookup\<close> calls on a new cache both dictionaries hold the
  same set of records. \<open>_cache_remove\<close> never raises: for an expired object or a
  missing id or key entry it clears both dictionaries.
\<close>

theorem tables_in_lock_step_when_ids_and_keys_correspond:
  assumes "inj key_of" and "\<forall>op \<in> set ops. op_well_keyed key_of op"
  shows "fmran' (cache_id (fst (run_ops ops (empty_cache, db)))) =
           fmran' (cache_key (fst (run_ops ops (empty_cache, db))))
       \<and> (\<forall>obj cache.
             obj_expired obj \<or> fmlookup (cache_id cache) (obj_id obj) = None
               \<or> fmlookup (cache_key cache) (obj_key obj) = None \<longrightarrow>
             cache_id (cache_remove obj cache) = fmempty
               \<and> cache_key (cache_remove obj cache) = fmempty)"
proof -
  have "lock_step key_of (fst (run_ops ops (empty_cache, db)))"
    by (rule lock_step_run_ops[OF assms]) (simp add: lock_step_empty)
  then have "fmran' (cache_id (fst (run_ops ops (empty_cache, db)))) =
           fmran' (cache_key (fst (run_ops ops (empty_cache, db))))"
    by (rule lock_step_records)
  moreover have "\<forall>obj cache.
             obj_expired obj \<or> fmlookup (cache_id cache) (obj_id obj) = None
               \<or> fmlookup (cache_key cache) (obj_key obj) = None \<longrightarrow>
             cache_id (cache_remove obj cache) = fmempty
               \<and> cache_key (cache_remove obj cache) = fmempty"
    by (auto simp: cache_remove_def cache_reset_def read_id_def read_cache_key_def)
  ultimately show ?thesis by blast
qed


definition fetch_record_one :: cache_miss_hook where
  "fetch_record_one db = ((Some record_one, False), db)"

definition example_ops :: "cache_op list" where
  "example_ops =
     [CacheWarm [record_one, record_two],
      CacheLookup (ById 1) fetch_record_one,
      CacheRemove record_two,
      CacheRemove record_two]"

theorem tables_in_lock_step_when_ids_and_keys_correspond_witness:
  "inj example_key_of
   \<and> fmran' (cache_id (fst (run_ops example_ops (empty_cache, empty_session)))) =
       fmran' (cache_key (fst (run_ops example_ops (empty_cache, empty_session))))
   \<and> cache_id (cache_remove record_two empty_cache) = fmempty
   \<and> cache_key (cache_remove record_two empty_cache) = fmempty"
proof -
  have wk: "\<forall>op \<in> set example_ops. op_well_keyed example_key_of op"
    by (simp add: example_ops_def well_keyed_def record_one_def record_two_def
          example_key_of_def fetch_record_one_def numeral_2_eq_2)
  from tables_in_lock_step_when_ids_and_keys_correspond[OF inj_example_key_of wk, of empty_session]
  have "fmran' (cache_id (fst (run_ops example_ops (empty_cache, empty_session)))) =
          fmran' (cache_key (fst (run_ops example_ops (empty_cache, empty_session))))"
    and "cache_id (cache_remove record_two empty_cache) = fmempty
          \<and> cache_key (cache_remove record_two empty_cache) = fmempty"
    by (simp_all add: empty_cache_def)
  with inj_example_key_of wk show ?thesis by simp
qed

















section \<open>Properties of coverage failure recording\<close>

text \<open>
  C10. In a failures dictionary keyed by strings, recording a failure for an identifier
  whose identifier string is \<open>s\<close> leaves exactly one failure under \<open>s\<close>, the one just
  built, whatever was stored there before; every other key is untouched. For an
  identifier whose string is \<open>None\<close> the call raises \<open>ValueError\<close> and the dictionary is
  unchanged.
\<close>

theorem record_coverage_failure_replaces:
  assumes "\<forall>i. failures (ObjKey i) = None"
  shows "(id_identifier ident = Some s \<longrightarrow>
            record_coverage_failure ds failures ident msg tr =
              (Inr \<lparr>cf_obj = ident, cf_exception = msg, cf_data_source = ds, cf_transient = tr\<rparr>,
               failures(StrKey s \<mapsto>
                 [\<lparr>cf_obj = ident, cf_exception = msg, cf_data_source = ds, cf_transient = tr\<rparr>])))
       \<and> (id_identifier ident = None \<longrightarrow>
            record_coverage_failure ds failures ident msg tr = (Inl ValueError, failures))"
  using assms by (simp add: record_coverage_failure_def Let_def)

theorem record_coverage_failure_replaces_witness:
  "(let ident = \<lparr>id_type = ''ISBN'', id_identifier = Some ''9780000000001''\<rparr>;
        old = \<lparr>cf_obj = ident, cf_exception = ''first'', cf_data_source = ''feed'',
               cf_transient = True\<rparr>;
        new = \<lparr>cf_obj = ident, cf_exception = ''second'', cf_data_source = ''feed'',
               cf_transient = True\<rparr>;
        failures = [StrKey ''9780000000001'' \<mapsto> [old]]
    in (\<forall>i. failures (ObjKey i) = None)
     \<and> record_coverage_failure ''feed'' failures ident ''second'' True =
         (Inr new, failures(StrKey ''9780000000001'' \<mapsto> [new])))
   \<and> (let ident = \<lparr>id_type = ''ISBN'', id_identifier = None\<rparr>;
          failures = [StrKey ''x'' \<mapsto> []]
      in (\<forall>i. failures (ObjKey i) = None)
       \<and> record_coverage_failure ''feed'' failures ident ''second'' True =
           (Inl ValueError, failures))"
  using record_coverage_failure_replaces
          [of "[StrKey ''9780000000001'' \<mapsto>
                 [\<lparr>cf_obj = \<lparr>id_type = ''ISBN'', id_identifier = Some ''9780000000001''\<rparr>,
                   cf_exception = ''first'', cf_data_source = ''feed'', cf_transient = True\<rparr>]]"
              "\<lparr>id_type = ''ISBN'', id_identifier = Some ''9780000000001''\<rparr>"
              "''9780000000001''" "''feed''" "''second''" True]
        record_coverage_failure_replaces
          [of "[StrKey ''x'' \<mapsto> []]" "\<lparr>id_type = ''ISBN'', id_identifier = None\<rparr>"
              "''x''" "''feed''" "''second''" True]
  by (simp add: Let_def)

end
